theory Spec2Isabelle
  imports Complex_Main
begin

section \<open>Electric Field Hockey: the data model of main.py\<close>

text \<open>
  Numbers. Python's \<open>int\<close> is \<open>int\<close>. Python's \<open>float\<close> is modelled by \<open>real\<close>:
  additions, multiplications and divisions are exact here, IEEE rounding, overflow and
  NaN are outside the model. Coordinates of charges start as Python ints and become
  floats once a velocity has been added, so they are \<open>real\<close> throughout; rectangle
  coordinates, charges, masses and radii are Python ints.

  Two-element Python lists such as \<open>position\<close>, \<open>velocity\<close> and \<open>force\<close> are pairs. The
  program builds each of them fresh (lines 183-185, 217-219, 424), so no two of them
  share storage and the in-place updates of the source are updates of a record field.
\<close>

datatype py_error = ZeroDivisionError | ValueError | IndexError

type_synonym vec = "real \<times> real"
type_synonym rgb = "int \<times> int \<times> int"

definition SCREEN_SIZE :: "int \<times> int" where
  "SCREEN_SIZE = (1200, 600)"

text \<open>class Obstacle (lines 50-56).\<close>

record Obstacle =
  position :: "int \<times> int"
  dimensions :: "int \<times> int"
  color :: rgb

definition Obstacle_init :: "int \<Rightarrow> int \<Rightarrow> int \<Rightarrow> int \<Rightarrow> rgb \<Rightarrow> Obstacle" where
  "Obstacle_init x y w h c = \<lparr>position = (x, y), dimensions = (w, h), color = c\<rparr>"

text \<open>class Button(Obstacle) (lines 69-91): the width is 25 per character of the text.\<close>

record Button = Obstacle +
  text_of :: string

definition Button_init :: "string \<Rightarrow> int \<Rightarrow> int \<Rightarrow> rgb \<Rightarrow> Button" where
  "Button_init t x y c =
     \<lparr>position = (x, y), dimensions = (int (length t) * 25, 50), color = c, text_of = t\<rparr>"

definition Button_detect_click :: "Button \<Rightarrow> int \<times> int \<Rightarrow> bool" where
  "Button_detect_click self click_position =
     ((fst (Obstacle.position self) \<le> fst click_position
        \<and> fst click_position \<le> fst (Obstacle.position self) + fst (dimensions self))
      \<and> (snd (Obstacle.position self) \<le> snd click_position
        \<and> snd click_position \<le> snd (Obstacle.position self) + snd (dimensions self)))"

text \<open>
  class Slider (lines 97-135). \<open>domain\<close> is a Python \<open>range\<close>, of which the code reads
  \<open>start\<close> and \<open>stop\<close>.
\<close>

record py_range =
  start :: int
  stop :: int
  step :: int

record Slider =
  label :: string
  position :: "int \<times> int"
  width :: int
  current_position :: int
  domain :: py_range
  clicked :: bool
  radius :: int

definition Slider_init :: "string \<Rightarrow> int \<times> int \<Rightarrow> py_range \<Rightarrow> int \<Rightarrow> Slider" where
  "Slider_init l p d w =
     \<lparr>label = l, position = p, width = w, current_position = fst p, domain = d,
      clicked = False, radius = 10\<rparr>"

text \<open>
  Python 3's \<open>round\<close> with one argument returns an int and rounds a tie to the even
  neighbour.
\<close>

definition py_round :: "real \<Rightarrow> int" where
  "py_round x =
     (let f = \<lfloor>x\<rfloor>; d = x - of_int f
      in if d < 1 / 2 then f
         else if 1 / 2 < d then f + 1
         else if even f then f else f + 1)"

text \<open>
  \<open>Slider.get_val\<close> (lines 113-115). The product is a Python int, \<open>/\<close> is true division
  and raises on a zero width.
\<close>

definition get_val :: "Slider \<Rightarrow> py_error + int" where
  "get_val self =
     (if width self = 0 then Inl ZeroDivisionError
      else Inr (py_round
                  (of_int ((stop (domain self) - start (domain self))
                           * (current_position self - fst (Slider.position self)))
                   / of_int (width self))
                + start (domain self)))"

definition Slider_detect_click :: "Slider \<Rightarrow> int \<times> int \<Rightarrow> bool" where
  "Slider_detect_click self click_position =
     ((current_position self - Slider.radius self \<le> fst click_position
        \<and> fst click_position \<le> current_position self + Slider.radius self)
      \<and> (snd (Slider.position self) - Slider.radius self \<le> snd click_position
        \<and> snd click_position \<le> snd (Slider.position self) + Slider.radius self))"

text \<open>
  class StationaryCharge (lines 141-173). The constructor leaves \<open>color\<close> unset when the
  charge is zero, hence the option.
\<close>

record StationaryCharge =
  position :: vec
  charge :: int
  mass :: int
  radius :: int
  clicked :: bool
  color :: "rgb option"

definition StationaryCharge_init :: "int \<Rightarrow> vec \<Rightarrow> StationaryCharge" where
  "StationaryCharge_init charge_val p =
     \<lparr>position = p, charge = charge_val, mass = 1, radius = 10, clicked = True,
      color = (if charge_val > 0 then Some (255, 0, 0)
               else if charge_val < 0 then Some (0, 0, 255) else None)\<rparr>"

definition detect_click :: "'a StationaryCharge_scheme \<Rightarrow> int \<times> int \<Rightarrow> bool" where
  "detect_click self click_position =
     ((fst (position self) - of_int (radius self) \<le> of_int (fst click_position)
        \<and> of_int (fst click_position) \<le> fst (position self) + of_int (radius self))
      \<and> (snd (position self) - of_int (radius self) \<le> of_int (snd click_position)
        \<and> of_int (snd click_position) \<le> snd (position self) + of_int (radius self)))"

text \<open>class DynamicCharge(StationaryCharge) (lines 179-219).\<close>

record DynamicCharge = StationaryCharge +
  velocity :: vec
  acceleration :: vec

definition launch_point :: vec where
  "launch_point = (50, of_int (snd SCREEN_SIZE div 2))"

definition DynamicCharge_init :: DynamicCharge where
  "DynamicCharge_init =
     \<lparr>position = launch_point, charge = 1, mass = 1, radius = 10, clicked = True,
      color = Some (0, 0, 0), velocity = (0, 0), acceleration = (0, 0)\<rparr>"

text \<open>
  \<open>DynamicCharge.move\<close> (lines 193-199). The six assignments run in order on the object
  itself; a zero mass raises at the fifth, after position and velocity have been
  written. The result is the object as the call leaves it, and the exception if any.
\<close>

definition move :: "DynamicCharge \<Rightarrow> vec \<Rightarrow> DynamicCharge \<times> py_error option" where
  "move self force =
     (let s1 = self\<lparr>position := (fst (position self) + fst (velocity self),
                                  snd (position self) + snd (velocity self))\<rparr>;
          s2 = s1\<lparr>velocity := (fst (velocity s1) + fst (acceleration s1),
                                snd (velocity s1) + snd (acceleration s1))\<rparr>
      in if mass s2 = 0 then (s2, Some ZeroDivisionError)
         else (s2\<lparr>acceleration := (fst force / of_int (mass s2),
                                     snd force / of_int (mass s2))\<rparr>, None))"

text \<open>\<open>DynamicCharge.detect_collision\<close> (lines 206-210).\<close>

definition detect_collision :: "DynamicCharge \<Rightarrow> 'a Obstacle_scheme \<Rightarrow> bool" where
  "detect_collision self obstacle =
     ((fst (position self) + of_int (radius self) \<ge> of_int (fst (Obstacle.position obstacle))
        \<and> fst (position self) - of_int (radius self)
            \<le> of_int (fst (Obstacle.position obstacle) + fst (dimensions obstacle)))
      \<and> (snd (position self) + of_int (radius self) \<ge> of_int (snd (Obstacle.position obstacle))
        \<and> snd (position self) - of_int (radius self)
            \<le> of_int (snd (Obstacle.position obstacle) + snd (dimensions obstacle))))"

definition reset :: "DynamicCharge \<Rightarrow> DynamicCharge" where
  "reset self = self\<lparr>position := launch_point, velocity := (0, 0), acceleration := (0, 0)\<rparr>"

section \<open>Geometry and forces\<close>

text \<open>
  \<open>hyp_calc\<close> (lines 227-228): the base of \<open>** 0.5\<close> is a sum of two squares, so the
  power is the square root.
\<close>

definition hyp_calc :: "vec \<Rightarrow> vec \<Rightarrow> real" where
  "hyp_calc vector1 vector2 =
     sqrt ((fst vector1 - fst vector2)\<^sup>2 + (snd vector1 - snd vector2)\<^sup>2)"

text \<open>
  \<open>angle_calc\<close> (lines 236-237): the division raises ZeroDivisionError on a zero
  hypotenuse, \<open>math.asin\<close> raises ValueError outside [-1, 1].
\<close>

definition angle_calc :: "vec \<Rightarrow> vec \<Rightarrow> py_error + real" where
  "angle_calc vector1 vector2 =
     (let h = hyp_calc vector1 vector2
      in if h = 0 then Inl ZeroDivisionError
         else let r = (snd vector1 - snd vector2) / h
              in if r < - 1 \<or> 1 < r then Inl ValueError else Inr (arcsin r))"

text \<open>\<open>electrostatic_force_calc\<close> (lines 245-253).\<close>

definition electrostatic_force_calc ::
  "'a StationaryCharge_scheme \<Rightarrow> 'b StationaryCharge_scheme \<Rightarrow> py_error + real" where
  "electrostatic_force_calc particle1 particle2 =
     (let k = 20; proximity = 4;
          charge_squared = k * \<bar>charge particle1\<bar> * \<bar>charge particle2\<bar>;
          distance = hyp_calc (position particle1) (position particle2)
      in if distance < of_int (proximity * radius particle1)
         then (if (proximity * radius particle1)\<^sup>2 = 0 then Inl ZeroDivisionError
               else Inr (of_int charge_squared / of_int ((proximity * radius particle1)\<^sup>2)))
         else (if distance\<^sup>2 = 0 then Inl ZeroDivisionError
               else Inr (of_int charge_squared / distance\<^sup>2)))"

text \<open>\<open>gravitational_force_calc\<close> (lines 260-268); \<open>g\<close> is the float 0.02.\<close>

definition gravitational_force_calc ::
  "'a StationaryCharge_scheme \<Rightarrow> 'b StationaryCharge_scheme \<Rightarrow> py_error + real" where
  "gravitational_force_calc particle1 particle2 =
     (let g = 2 / 100; proximity = 4;
          mass_squared = g * of_int (mass particle1) * of_int (mass particle2);
          distance = hyp_calc (position particle1) (position particle2)
      in if distance < of_int (proximity * radius particle1)
         then (if (proximity * radius particle1)\<^sup>2 = 0 then Inl ZeroDivisionError
               else Inr (mass_squared / of_int ((proximity * radius particle1)\<^sup>2)))
         else (if distance\<^sup>2 = 0 then Inl ZeroDivisionError
               else Inr (mass_squared / distance\<^sup>2)))"

text \<open>
  \<open>net_force_calc\<close> (lines 275-315). The globals \<open>primary_charge\<close> and \<open>charges\<close> are
  parameters. Lines 279-286 choose the magnitude and the attraction flag of one charge;
  an unknown force type leaves them at 0 and False.
\<close>

definition magnitude_attraction ::
  "string \<Rightarrow> DynamicCharge \<Rightarrow> StationaryCharge \<Rightarrow> py_error + (real \<times> bool)" where
  "magnitude_attraction force_type primary_charge c =
     (if force_type = ''gravitational'' then
        (case gravitational_force_calc primary_charge c of
           Inl e \<Rightarrow> Inl e
         | Inr magnitude \<Rightarrow> Inr (magnitude, True))
      else if force_type = ''electrostatic'' then
        (case electrostatic_force_calc primary_charge c of
           Inl e \<Rightarrow> Inl e
         | Inr magnitude \<Rightarrow>
             Inr (magnitude,
                  \<not> ((charge primary_charge > 0 \<and> charge c > 0)
                     \<or> (charge primary_charge < 0 \<and> charge c < 0))))
      else Inr (0, False))"

text \<open>
  One pass of the loop body (lines 278-314) on the running sum. The list \<open>point\<close> and
  the line drawn at 314 are rendering and leave the sum alone.
\<close>

definition accumulate ::
  "string \<Rightarrow> DynamicCharge \<Rightarrow> StationaryCharge \<Rightarrow> vec \<Rightarrow> py_error + vec" where
  "accumulate force_type primary_charge c tot =
     (case angle_calc (position primary_charge) (position c) of
        Inl e \<Rightarrow> Inl e
      | Inr angle \<Rightarrow>
         (case magnitude_attraction force_type primary_charge c of
            Inl e \<Rightarrow> Inl e
          | Inr (magnitude, attraction) \<Rightarrow>
              Inr (if attraction then
                     (if fst (position primary_charge) > fst (position c)
                      then fst tot - \<bar>cos angle * magnitude\<bar>
                      else fst tot + \<bar>cos angle * magnitude\<bar>,
                      if snd (position primary_charge) > snd (position c)
                      then snd tot - \<bar>sin angle * magnitude\<bar>
                      else snd tot + \<bar>sin angle * magnitude\<bar>)
                   else
                     (if fst (position primary_charge) > fst (position c)
                      then fst tot + \<bar>cos angle * magnitude\<bar>
                      else fst tot - \<bar>cos angle * magnitude\<bar>,
                      if snd (position primary_charge) > snd (position c)
                      then snd tot + \<bar>sin angle * magnitude\<bar>
                      else snd tot - \<bar>sin angle * magnitude\<bar>))))"

fun net_force_loop ::
  "string \<Rightarrow> DynamicCharge \<Rightarrow> StationaryCharge list \<Rightarrow> vec \<Rightarrow> py_error + vec" where
  "net_force_loop force_type primary_charge [] tot = Inr tot"
| "net_force_loop force_type primary_charge (c # cs) tot =
     (case accumulate force_type primary_charge c tot of
        Inl e \<Rightarrow> Inl e
      | Inr tot' \<Rightarrow> net_force_loop force_type primary_charge cs tot')"

definition net_force_calc ::
  "string \<Rightarrow> DynamicCharge \<Rightarrow> StationaryCharge list \<Rightarrow> py_error + vec" where
  "net_force_calc force_type primary_charge charges =
     net_force_loop force_type primary_charge charges (0, 0)"

section \<open>Widgets, levels and the game state\<close>

text \<open>The module-level objects of lines 321-357.\<close>

definition play_button :: Button where
  "play_button = Button_init ''play'' (fst SCREEN_SIZE div 2 - 70) 300 (0, 0, 255)"

definition quit_button :: Button where
  "quit_button = Button_init ''quit'' (fst SCREEN_SIZE div 2 - 70) 500 (255, 0, 0)"

definition add_positive_charges :: Button where
  "add_positive_charges = Button_init ''+'' 50 (snd SCREEN_SIZE + 50) (255, 0, 0)"

definition add_negative_charge :: Button where
  "add_negative_charge = Button_init ''-'' 100 (snd SCREEN_SIZE + 50) (0, 0, 255)"

definition run_button :: Button where
  "run_button = Button_init ''run'' 650 (snd SCREEN_SIZE + 50) (0, 0, 0)"

definition reset_button :: Button where
  "reset_button = Button_init ''reset'' 750 (snd SCREEN_SIZE + 50) (0, 0, 0)"

definition home_button :: Button where
  "home_button = Button_init ''home'' 1050 (snd SCREEN_SIZE + 50) (0, 0, 0)"

definition clear_button :: Button where
  "clear_button = Button_init ''clear'' 900 (snd SCREEN_SIZE + 50) (0, 0, 0)"

definition level_slider_init :: Slider where
  "level_slider_init =
     Slider_init ''level'' (fst SCREEN_SIZE div 2 - 75, 200) \<lparr>start = 0, stop = 3, step = 1\<rparr> 100"

definition mass_slider_init :: Slider where
  "mass_slider_init =
     Slider_init ''mass'' (315, snd SCREEN_SIZE + 50) \<lparr>start = 1, stop = 100, step = 1\<rparr> 100"

definition charge_slider_init :: Slider where
  "charge_slider_init =
     Slider_init ''charge'' (500, snd SCREEN_SIZE + 50) \<lparr>start = - 25, stop = 25, step = 1\<rparr> 100"

definition goal :: Obstacle where
  "goal = Obstacle_init (fst SCREEN_SIZE - 50) (snd SCREEN_SIZE div 2 - 30) 20 60 (150, 0, 150)"

definition levels :: "Obstacle list list" where
  "levels =
     [[],
      [Obstacle_init 300 (snd SCREEN_SIZE div 2 - 75) 20 150 (0, 0, 0)],
      [Obstacle_init (fst SCREEN_SIZE div 3) (snd SCREEN_SIZE div 4 - 75) 20 150 (0, 0, 0),
       Obstacle_init (2 * fst SCREEN_SIZE div 3) (snd SCREEN_SIZE div 2 - 75) 20 150 (0, 0, 0)],
      [Obstacle_init (fst SCREEN_SIZE div 5) (snd SCREEN_SIZE div 3) 20
         (2 * snd SCREEN_SIZE div 3) (0, 0, 0),
       Obstacle_init (3 * fst SCREEN_SIZE div 7) 0 20 (snd SCREEN_SIZE div 2) (0, 0, 0),
       Obstacle_init (3 * fst SCREEN_SIZE div 4) (snd SCREEN_SIZE div 3) 20
         (2 * snd SCREEN_SIZE div 3) (0, 0, 0)]]"

text \<open>The mutable globals of lines 340-357 and the three sliders, as one state.\<close>

record Game =
  play :: bool
  run :: bool
  charges :: "StationaryCharge list"
  primary_charge :: DynamicCharge
  g_force :: "real list"
  e_force :: "real list"
  active_level :: int
  level_slider :: Slider
  mass_slider :: Slider
  charge_slider :: Slider

definition initial_game :: Game where
  "initial_game =
     \<lparr>play = False, run = False, charges = [], primary_charge = DynamicCharge_init,
      g_force = [], e_force = [], active_level = 0, level_slider = level_slider_init,
      mass_slider = mass_slider_init, charge_slider = charge_slider_init\<rparr>"

text \<open>
  The pygame events the loop distinguishes; \<open>MOUSEBUTTONDOWN\<close> carries \<open>event.button\<close>
  and \<open>event.pos\<close>, \<open>MOUSEMOTION\<close> carries \<open>event.pos\<close>.
\<close>

datatype event =
  QUIT
| MOUSEBUTTONDOWN int "int \<times> int"
| MOUSEBUTTONUP
| MOUSEMOTION "int \<times> int"
| OTHER

text \<open>A loop iteration ends the process by \<open>exit()\<close> or by an uncaught exception.\<close>

datatype stop = Exited | Raised py_error

text \<open>Python's list indexing, negative indices counting from the end.\<close>

definition list_getitem :: "'a list \<Rightarrow> int \<Rightarrow> py_error + 'a" where
  "list_getitem xs i =
     (if 0 \<le> i \<and> i < int (length xs) then Inr (xs ! nat i)
      else if - int (length xs) \<le> i \<and> i < 0 then Inr (xs ! nat (int (length xs) + i))
      else Inl IndexError)"

text \<open>
  The slider update written three times in the source (lines 392-393, 476-477, 478-479):
  a clicked slider follows the mouse while the mouse is over the track.
\<close>

definition drag :: "Slider \<Rightarrow> int \<times> int \<Rightarrow> Slider" where
  "drag s pos =
     (if Slider.clicked s \<and> fst (Slider.position s) \<le> fst pos
         \<and> fst pos \<le> fst (Slider.position s) + width s
      then s\<lparr>current_position := fst pos\<rparr> else s)"

text \<open>The home screen's handler of one event (lines 377-393).\<close>

definition home_event :: "Game \<Rightarrow> event \<Rightarrow> stop + Game" where
  "home_event g ev =
     (case ev of
        QUIT \<Rightarrow> Inl Exited
      | MOUSEBUTTONDOWN button pos \<Rightarrow>
          if button = 1 then
            (if Button_detect_click play_button pos then
               (case get_val (level_slider g) of
                  Inl e \<Rightarrow> Inl (Raised e)
                | Inr v \<Rightarrow> Inr (g\<lparr>active_level := v, play := True\<rparr>))
             else if Button_detect_click quit_button pos then Inl Exited
             else if Slider_detect_click (level_slider g) pos then
               Inr (g\<lparr>level_slider := (level_slider g)\<lparr>Slider.clicked := True\<rparr>\<rparr>)
             else Inr g)
          else Inr g
      | MOUSEBUTTONUP \<Rightarrow> Inr (g\<lparr>level_slider := (level_slider g)\<lparr>Slider.clicked := False\<rparr>\<rparr>)
      | MOUSEMOTION pos \<Rightarrow> Inr (g\<lparr>level_slider := drag (level_slider g) pos\<rparr>)
      | OTHER \<Rightarrow> Inr g)"

text \<open>
  The game screen's left click (lines 445-466) is a sequence of independent \<open>if\<close>
  statements; each is one step on the state, in the source's order.
\<close>

definition click_charges :: "int \<times> int \<Rightarrow> Game \<Rightarrow> Game" where
  "click_charges pos g =
     g\<lparr>charges := map (\<lambda>c. if detect_click c pos then c\<lparr>clicked := True\<rparr> else c) (charges g)\<rparr>"

definition click_add_positive_charges :: "int \<times> int \<Rightarrow> Game \<Rightarrow> Game" where
  "click_add_positive_charges pos g =
     (if Button_detect_click add_positive_charges pos
      then g\<lparr>charges := charges g @ [StationaryCharge_init 1 (of_int (fst pos), of_int (snd pos))]\<rparr>
      else g)"

definition click_add_negative_charge :: "int \<times> int \<Rightarrow> Game \<Rightarrow> Game" where
  "click_add_negative_charge pos g =
     (if Button_detect_click add_negative_charge pos
      then g\<lparr>charges := charges g @ [StationaryCharge_init (- 1) (of_int (fst pos), of_int (snd pos))]\<rparr>
      else g)"

definition click_run_button :: "int \<times> int \<Rightarrow> Game \<Rightarrow> Game" where
  "click_run_button pos g = (if Button_detect_click run_button pos then g\<lparr>run := True\<rparr> else g)"

definition click_mass_slider :: "int \<times> int \<Rightarrow> Game \<Rightarrow> Game" where
  "click_mass_slider pos g =
     (if Slider_detect_click (mass_slider g) pos
      then g\<lparr>mass_slider := (mass_slider g)\<lparr>Slider.clicked := True\<rparr>\<rparr> else g)"

definition click_charge_slider :: "int \<times> int \<Rightarrow> Game \<Rightarrow> Game" where
  "click_charge_slider pos g =
     (if Slider_detect_click (charge_slider g) pos
      then g\<lparr>charge_slider := (charge_slider g)\<lparr>Slider.clicked := True\<rparr>\<rparr> else g)"

definition click_home_button :: "int \<times> int \<Rightarrow> Game \<Rightarrow> Game" where
  "click_home_button pos g =
     (if Button_detect_click home_button pos
      then g\<lparr>primary_charge := reset (primary_charge g), run := False, play := False\<rparr> else g)"

definition click_reset_button :: "int \<times> int \<Rightarrow> Game \<Rightarrow> Game" where
  "click_reset_button pos g =
     (if Button_detect_click reset_button pos
      then g\<lparr>primary_charge := reset (primary_charge g), run := False\<rparr> else g)"

definition click_clear_button :: "int \<times> int \<Rightarrow> Game \<Rightarrow> Game" where
  "click_clear_button pos g =
     (if Button_detect_click clear_button pos then g\<lparr>charges := []\<rparr> else g)"

definition left_click :: "int \<times> int \<Rightarrow> Game \<Rightarrow> Game" where
  "left_click pos g =
     click_clear_button pos (click_reset_button pos (click_home_button pos
       (click_charge_slider pos (click_mass_slider pos (click_run_button pos
         (click_add_negative_charge pos (click_add_positive_charges pos
           (click_charges pos g))))))))"

text \<open>The game screen's handler of one event (lines 441-479).\<close>

definition play_event :: "Game \<Rightarrow> event \<Rightarrow> stop + Game" where
  "play_event g ev =
     (case ev of
        QUIT \<Rightarrow> Inl Exited
      | MOUSEBUTTONDOWN button pos \<Rightarrow> if button = 1 then Inr (left_click pos g) else Inr g
      | MOUSEBUTTONUP \<Rightarrow>
          Inr (g\<lparr>charges := map (\<lambda>c. c\<lparr>clicked := False\<rparr>) (charges g),
                 mass_slider := (mass_slider g)\<lparr>Slider.clicked := False\<rparr>,
                 charge_slider := (charge_slider g)\<lparr>Slider.clicked := False\<rparr>\<rparr>)
      | MOUSEMOTION pos \<Rightarrow>
          Inr (g\<lparr>charges := map (\<lambda>c. if clicked c
                                        then c\<lparr>position := (of_int (fst pos), of_int (snd pos))\<rparr>
                                        else c) (charges g),
                 mass_slider := drag (mass_slider g) pos,
                 charge_slider := drag (charge_slider g) pos\<rparr>)
      | OTHER \<Rightarrow> Inr g)"

text \<open>\<open>for event in pygame.event.get()\<close>: the events of one iteration, in order.\<close>

fun run_events :: "(Game \<Rightarrow> event \<Rightarrow> stop + Game) \<Rightarrow> Game \<Rightarrow> event list \<Rightarrow> stop + Game" where
  "run_events handler g [] = Inr g"
| "run_events handler g (ev # evs) =
     (case handler g ev of Inl s \<Rightarrow> Inl s | Inr g' \<Rightarrow> run_events handler g' evs)"

text \<open>The obstacle loop of lines 410-413 on the run flag.\<close>

fun obstacle_check :: "DynamicCharge \<Rightarrow> Obstacle list \<Rightarrow> bool \<Rightarrow> bool" where
  "obstacle_check p [] r = r"
| "obstacle_check p (obs # rest) r =
     obstacle_check p rest (if detect_collision p obs then False else r)"

text \<open>
  The loop of lines 416-419 removes from the list it iterates. Python's list iterator
  keeps an index, so after a removal the element that moved into the freed place is
  skipped. \<open>list.remove\<close> deletes the first element equal to its argument; the charges
  are distinct objects compared by identity, so that is the element at the index.
\<close>

definition remove_at :: "nat \<Rightarrow> 'a list \<Rightarrow> 'a list" where
  "remove_at i xs = take i xs @ drop (Suc i) xs"

function remove_offscreen :: "nat \<Rightarrow> StationaryCharge list \<Rightarrow> StationaryCharge list" where
  "remove_offscreen i cs =
     (if i < length cs then
        (if snd (position (cs ! i)) > of_int (snd SCREEN_SIZE) \<and> \<not> clicked (cs ! i)
         then remove_offscreen (Suc i) (remove_at i cs)
         else remove_offscreen (Suc i) cs)
      else cs)"
  by pat_completeness auto
termination
  by (relation "measure (\<lambda>(i, cs). length cs - i)") (auto simp: remove_at_def)

declare remove_offscreen.simps [simp del]

text \<open>
  The game screen's state update of one iteration, lines 410-437, without the
  rendering: obstacle check, removal of charges dropped below the field, one
  integration step when running, mass and charge read from the sliders, goal check.
\<close>

definition integrate :: "Game \<Rightarrow> stop + Game" where
  "integrate g =
     (if run g then
        (case net_force_calc ''gravitational'' (primary_charge g) (charges g) of
           Inl e \<Rightarrow> Inl (Raised e)
         | Inr gf \<Rightarrow>
            (case net_force_calc ''electrostatic'' (primary_charge g) (charges g) of
               Inl e \<Rightarrow> Inl (Raised e)
             | Inr ef \<Rightarrow>
                (case move (primary_charge g) (fst gf + fst ef, snd gf + snd ef) of
                   (p, Some e) \<Rightarrow> Inl (Raised e)
                 | (p, None) \<Rightarrow>
                     Inr (g\<lparr>g_force := [fst gf, snd gf], e_force := [fst ef, snd ef],
                            primary_charge := p\<rparr>))))
      else Inr g)"

definition read_sliders :: "Game \<Rightarrow> stop + Game" where
  "read_sliders g =
     (case get_val (mass_slider g) of
        Inl e \<Rightarrow> Inl (Raised e)
      | Inr m \<Rightarrow>
         (case get_val (charge_slider g) of
            Inl e \<Rightarrow> Inl (Raised e)
          | Inr q \<Rightarrow> Inr (g\<lparr>primary_charge := (primary_charge g)\<lparr>mass := m, charge := q\<rparr>\<rparr>)))"

definition goal_check :: "Game \<Rightarrow> Game" where
  "goal_check g = (if detect_collision (primary_charge g) goal then g\<lparr>run := False\<rparr> else g)"

definition game_update :: "Game \<Rightarrow> stop + Game" where
  "game_update g =
     (case list_getitem levels (active_level g) of
        Inl e \<Rightarrow> Inl (Raised e)
      | Inr obstacles \<Rightarrow>
         (case integrate (g\<lparr>run := obstacle_check (primary_charge g) obstacles (run g),
                            charges := remove_offscreen 0 (charges g)\<rparr>) of
            Inl s \<Rightarrow> Inl s
          | Inr g1 \<Rightarrow>
             (case read_sliders g1 of
                Inl s \<Rightarrow> Inl s
              | Inr g2 \<Rightarrow> Inr (goal_check g2))))"

text \<open>One iteration of the \<open>while True\<close> loop (lines 361-482) on the events it polls.\<close>

definition frame :: "Game \<Rightarrow> event list \<Rightarrow> stop + Game" where
  "frame g evs =
     (if \<not> play g then run_events home_event g evs
      else (case game_update g of
              Inl s \<Rightarrow> Inl s
            | Inr g' \<Rightarrow> run_events play_event g' evs))"

text \<open>Several iterations, one list of events each.\<close>

fun frames :: "Game \<Rightarrow> event list list \<Rightarrow> stop + Game" where
  "frames g [] = Inr g"
| "frames g (evs # rest) = (case frame g evs of Inl s \<Rightarrow> Inl s | Inr g' \<Rightarrow> frames g' rest)"

text \<open>A left click on the run button, the one event that sets the run flag.\<close>

fun run_click :: "event \<Rightarrow> bool" where
  "run_click (MOUSEBUTTONDOWN button pos) = (button = 1 \<and> Button_detect_click run_button pos)"
| "run_click ev = False"

section \<open>The specification's collision test\<close>

text \<open>
  The spec's words for C5: two closed intervals overlap when the larger of the lower
  ends is at most the smaller of the upper ends; the particle's bounding square is
  centre plus or minus radius, the rectangle's box is position to position plus size.
\<close>

definition intervals_overlap :: "real \<Rightarrow> real \<Rightarrow> real \<Rightarrow> real \<Rightarrow> bool" where
  "intervals_overlap lo1 hi1 lo2 hi2 = (max lo1 lo2 \<le> min hi1 hi2)"

definition spec_collides :: "DynamicCharge \<Rightarrow> 'a Obstacle_scheme \<Rightarrow> bool" where
  "spec_collides particle rect =
     (intervals_overlap (fst (position particle) - of_int (radius particle))
                        (fst (position particle) + of_int (radius particle))
                        (of_int (fst (Obstacle.position rect)))
                        (of_int (fst (Obstacle.position rect) + fst (dimensions rect)))
      \<and> intervals_overlap (snd (position particle) - of_int (radius particle))
                        (snd (position particle) + of_int (radius particle))
                        (of_int (snd (Obstacle.position rect)))
                        (of_int (snd (Obstacle.position rect) + snd (dimensions rect))))"

text \<open>
  The state of the level slider that the loop maintains: the geometry and domain the
  constructor gave it, and the knob on the track.
\<close>

definition level_inv :: "Game \<Rightarrow> bool" where
  "level_inv g =
     (Slider.position (level_slider g) = (525, 200) \<and> width (level_slider g) = 100
      \<and> start (domain (level_slider g)) = 0 \<and> stop (domain (level_slider g)) = 3
      \<and> 525 \<le> current_position (level_slider g) \<and> current_position (level_slider g) \<le> 625
      \<and> 0 \<le> active_level g \<and> active_level g \<le> 3)"

section \<open>The integration step\<close>

text \<open>
  C1. One call of \<open>move\<close> advances the position by the previous velocity, the velocity by
  the previous acceleration, and, the mass being nonzero as it is for every mass the
  mass slider (1 to 100) or the constructor (1) can give, sets the acceleration to the
  force divided by the mass without raising. The position and the velocity after the
  call are the same for any two forces.
\<close>

theorem move_explicit_euler_order:
  "position (fst (move p force))
     = (fst (position p) + fst (velocity p), snd (position p) + snd (velocity p))
   \<and> velocity (fst (move p force))
     = (fst (velocity p) + fst (acceleration p), snd (velocity p) + snd (acceleration p))
   \<and> (mass p \<noteq> 0 \<longrightarrow>
        snd (move p force) = None
        \<and> acceleration (fst (move p force))
          = (fst force / of_int (mass p), snd force / of_int (mass p)))
   \<and> position (fst (move p force)) = position (fst (move p force'))
   \<and> velocity (fst (move p force)) = velocity (fst (move p force'))"
  by (simp add: move_def Let_def)

theorem move_explicit_euler_order_witness:
  "mass DynamicCharge_init \<noteq> 0
   \<and> snd (move DynamicCharge_init (3, 4)) = None
   \<and> acceleration (fst (move DynamicCharge_init (3, 4))) = (3, 4)
   \<and> position (fst (move DynamicCharge_init (3, 4))) = launch_point"
  using move_explicit_euler_order [of DynamicCharge_init "(3, 4)" "(3, 4)"]
  by (simp add: DynamicCharge_init_def)

text \<open>
  C10. \<open>move\<close> writes the position, the velocity and the acceleration and nothing else:
  the object it leaves is the old one with those three fields replaced, so charge, mass,
  radius, color and the clicked flag are the old ones, whether or not the call raises.
\<close>

theorem move_frame:
  "(\<exists>pos vel acc.
      fst (move p force) = p\<lparr>position := pos, velocity := vel, acceleration := acc\<rparr>)
   \<and> charge (fst (move p force)) = charge p
   \<and> mass (fst (move p force)) = mass p
   \<and> radius (fst (move p force)) = radius p
   \<and> color (fst (move p force)) = color p
   \<and> clicked (fst (move p force)) = clicked p"
proof -
  have "\<exists>pos vel acc.
      fst (move p force) = p\<lparr>position := pos, velocity := vel, acceleration := acc\<rparr>"
  proof (cases "mass p = 0")
    case True
    then have "fst (move p force)
        = p\<lparr>position := (fst (position p) + fst (velocity p),
                          snd (position p) + snd (velocity p)),
            velocity := (fst (velocity p) + fst (acceleration p),
                          snd (velocity p) + snd (acceleration p)),
            acceleration := acceleration p\<rparr>"
      by (simp add: move_def Let_def)
    then show ?thesis by blast
  next
    case False
    then have "fst (move p force)
        = p\<lparr>position := (fst (position p) + fst (velocity p),
                          snd (position p) + snd (velocity p)),
            velocity := (fst (velocity p) + fst (acceleration p),
                          snd (velocity p) + snd (acceleration p)),
            acceleration := (fst force / of_int (mass p), snd force / of_int (mass p))\<rparr>"
      by (simp add: move_def Let_def)
    then show ?thesis by blast
  qed
  then show ?thesis by (simp add: move_def Let_def)
qed

section \<open>Collision detection\<close>

lemma intervals_overlap_iff_meet:
  "intervals_overlap lo1 hi1 lo2 hi2 \<longleftrightarrow> {lo1..hi1} \<inter> {lo2..hi2} \<noteq> {}"
  by (auto simp: intervals_overlap_def)

text \<open>
  C5. For a particle of nonnegative radius and a rectangle of nonnegative width and
  height (every particle has radius 10, every obstacle and the goal have positive
  sizes), \<open>detect_collision\<close> is true exactly when the bounding square, centre plus or
  minus radius, and the rectangle's box overlap on both axes, bounds included. A particle
  of radius 10 at (100, 100) collides with the rectangle at (95, 95) of size (20, 20);
  at (200, 200) it does not.
\<close>

theorem detect_collision_aabb:
  "(0 \<le> radius p \<and> 0 \<le> fst (dimensions ob) \<and> 0 \<le> snd (dimensions ob)
      \<longrightarrow> detect_collision p ob = spec_collides p ob)
   \<and> radius DynamicCharge_init = 10
   \<and> detect_collision (DynamicCharge_init\<lparr>position := (100, 100)\<rparr>)
       (Obstacle_init 95 95 20 20 c)
   \<and> \<not> detect_collision (DynamicCharge_init\<lparr>position := (200, 200)\<rparr>)
       (Obstacle_init 95 95 20 20 c)"
proof -
  have "detect_collision p ob = spec_collides p ob"
    if "0 \<le> radius p" "0 \<le> fst (dimensions ob)" "0 \<le> snd (dimensions ob)"
    using that by (auto simp: detect_collision_def spec_collides_def intervals_overlap_def)
  moreover have "detect_collision (DynamicCharge_init\<lparr>position := (100, 100)\<rparr>)
      (Obstacle_init 95 95 20 20 c)"
    by (simp add: detect_collision_def DynamicCharge_init_def Obstacle_init_def)
  moreover have "\<not> detect_collision (DynamicCharge_init\<lparr>position := (200, 200)\<rparr>)
      (Obstacle_init 95 95 20 20 c)"
    by (simp add: detect_collision_def DynamicCharge_init_def Obstacle_init_def)
  moreover have "radius DynamicCharge_init = 10"
    by (simp add: DynamicCharge_init_def)
  ultimately show ?thesis by blast
qed

theorem detect_collision_aabb_witness:
  "0 \<le> radius DynamicCharge_init \<and> 0 \<le> fst (dimensions goal) \<and> 0 \<le> snd (dimensions goal)
   \<and> detect_collision (DynamicCharge_init\<lparr>position := (1145, 265)\<rparr>) goal
   \<and> spec_collides (DynamicCharge_init\<lparr>position := (1145, 265)\<rparr>) goal
   \<and> \<not> detect_collision DynamicCharge_init goal
   \<and> \<not> spec_collides DynamicCharge_init goal"
  using detect_collision_aabb [of "DynamicCharge_init\<lparr>position := (1145, 265)\<rparr>" goal]
    detect_collision_aabb [of DynamicCharge_init goal]
  by (simp add: DynamicCharge_init_def goal_def Obstacle_init_def spec_collides_def
        intervals_overlap_def launch_point_def SCREEN_SIZE_def)

section \<open>Geometry\<close>

lemma hyp_calc_nonneg: "0 \<le> hyp_calc a b"
  by (simp add: hyp_calc_def)

lemma hyp_calc_zero_iff: "hyp_calc a b = 0 \<longleftrightarrow> a = b"
  by (auto simp: hyp_calc_def prod_eq_iff)

lemma hyp_calc_commute: "hyp_calc a b = hyp_calc b a"
  by (simp add: hyp_calc_def power2_commute)

lemma abs_dy_le_hyp_calc: "\<bar>snd a - snd b\<bar> \<le> hyp_calc a b"
proof -
  have "\<bar>snd a - snd b\<bar> = sqrt ((snd a - snd b)\<^sup>2)" by simp
  also have "\<dots> \<le> sqrt ((fst a - fst b)\<^sup>2 + (snd a - snd b)\<^sup>2)"
    by (rule real_sqrt_le_mono) simp
  finally show ?thesis by (simp add: hyp_calc_def)
qed

lemma ratio_bounded:
  assumes "a \<noteq> b"
  shows "\<bar>(snd a - snd b) / hyp_calc a b\<bar> \<le> 1"
proof -
  have pos: "0 < hyp_calc a b"
    using assms hyp_calc_nonneg [of a b] hyp_calc_zero_iff [of a b] by linarith
  have "\<bar>(snd a - snd b) / hyp_calc a b\<bar> = \<bar>snd a - snd b\<bar> / hyp_calc a b"
    using pos by simp
  also have "\<dots> \<le> 1"
    using pos abs_dy_le_hyp_calc [of a b] by simp
  finally show ?thesis .
qed

lemma angle_calc_distinct:
  assumes "a \<noteq> b"
  shows "angle_calc a b = Inr (arcsin ((snd a - snd b) / hyp_calc a b))"
proof -
  have "hyp_calc a b \<noteq> 0" using assms by (simp add: hyp_calc_zero_iff)
  moreover have "\<not> ((snd a - snd b) / hyp_calc a b < - 1 \<or> 1 < (snd a - snd b) / hyp_calc a b)"
    using ratio_bounded [OF assms] by linarith
  ultimately show ?thesis by (simp add: angle_calc_def Let_def)
qed

lemma sqrt_25: "sqrt 25 = 5"
  by (simp add: real_sqrt_unique)

lemma sqrt_10000: "sqrt 10000 = 100"
  by (simp add: real_sqrt_unique)

lemma sqrt_250000: "sqrt 250000 = 500"
  by (simp add: real_sqrt_unique)

text \<open>
  C8. For two distinct points the argument of \<open>asin\<close> lies in [-1, 1], \<open>angle_calc\<close>
  returns an angle, and the sine of that angle is (a.y - b.y) / distance(a, b). For
  a = b the division raises ZeroDivisionError. (Exact arithmetic; see the note on
  numbers at the top.)
\<close>

theorem angle_calc_defined:
  "(a \<noteq> b \<longrightarrow>
      - 1 \<le> (snd a - snd b) / hyp_calc a b \<and> (snd a - snd b) / hyp_calc a b \<le> 1
      \<and> (\<exists>\<theta>. angle_calc a b = Inr \<theta> \<and> sin \<theta> = (snd a - snd b) / hyp_calc a b))
   \<and> angle_calc a a = Inl ZeroDivisionError"
proof -
  have "angle_calc a a = Inl ZeroDivisionError"
    by (simp add: angle_calc_def hyp_calc_def)
  moreover have "- 1 \<le> (snd a - snd b) / hyp_calc a b \<and> (snd a - snd b) / hyp_calc a b \<le> 1
      \<and> (\<exists>\<theta>. angle_calc a b = Inr \<theta> \<and> sin \<theta> = (snd a - snd b) / hyp_calc a b)"
    if "a \<noteq> b"
  proof -
    have b: "- 1 \<le> (snd a - snd b) / hyp_calc a b \<and> (snd a - snd b) / hyp_calc a b \<le> 1"
      using ratio_bounded [OF that] by linarith
    then have "sin (arcsin ((snd a - snd b) / hyp_calc a b)) = (snd a - snd b) / hyp_calc a b"
      by simp
    with b angle_calc_distinct [OF that] show ?thesis by simp
  qed
  ultimately show ?thesis by blast
qed

theorem angle_calc_defined_witness:
  "((0, 4) :: vec) \<noteq> (3, 0) \<and> hyp_calc (0, 4) (3, 0) = 5
   \<and> (\<exists>\<theta>. angle_calc (0, 4) (3, 0) = Inr \<theta> \<and> sin \<theta> = 4 / 5)"
  using angle_calc_defined [of "(0, 4)" "(3, 0)"] by (simp add: hyp_calc_def sqrt_25)

section \<open>Force magnitudes\<close>

text \<open>
  C7. For two particles of the same radius (the constructor of line 148 gives every
  particle radius 10 and nothing assigns it afterwards) both magnitude functions give
  the same result, value or exception, with the arguments exchanged.
\<close>

theorem force_calc_symmetric:
  "radius p1 = radius p2 \<Longrightarrow>
     electrostatic_force_calc p1 p2 = electrostatic_force_calc p2 p1
     \<and> gravitational_force_calc p1 p2 = gravitational_force_calc p2 p1"
  by (simp add: electrostatic_force_calc_def gravitational_force_calc_def Let_def
        hyp_calc_commute [of "position p1" "position p2"] mult.commute mult.left_commute abs_mult)

theorem force_calc_symmetric_witness:
  "radius (DynamicCharge_init\<lparr>mass := 7, charge := - 3\<rparr>)
     = radius (StationaryCharge_init 1 (350, 700))
   \<and> electrostatic_force_calc (DynamicCharge_init\<lparr>mass := 7, charge := - 3\<rparr>)
       (StationaryCharge_init 1 (350, 700)) = Inr (60 / 250000)
   \<and> electrostatic_force_calc (StationaryCharge_init 1 (350, 700))
       (DynamicCharge_init\<lparr>mass := 7, charge := - 3\<rparr>) = Inr (60 / 250000)
   \<and> gravitational_force_calc (StationaryCharge_init 1 (350, 700))
       (DynamicCharge_init\<lparr>mass := 7, charge := - 3\<rparr>)
     = gravitational_force_calc (DynamicCharge_init\<lparr>mass := 7, charge := - 3\<rparr>)
       (StationaryCharge_init 1 (350, 700))"
proof -
  have e: "electrostatic_force_calc (DynamicCharge_init\<lparr>mass := 7, charge := - 3\<rparr>)
       (StationaryCharge_init 1 (350, 700)) = Inr (60 / 250000)"
    by (simp add: electrostatic_force_calc_def DynamicCharge_init_def StationaryCharge_init_def
          launch_point_def SCREEN_SIZE_def hyp_calc_def sqrt_250000)
  have r: "radius (DynamicCharge_init\<lparr>mass := 7, charge := - 3\<rparr>)
     = radius (StationaryCharge_init 1 (350, 700))"
    by (simp add: DynamicCharge_init_def StationaryCharge_init_def)
  show ?thesis
    using force_calc_symmetric [OF r] e r by simp
qed

text \<open>
  C3. For a first particle of positive radius (10 for every particle of the program):
  when the distance is below 4 times the radius, both magnitudes are the inverse-square
  formula evaluated at the distance 4 times the radius, whatever the distance is, so
  they are constant on that range; when the distance is at or above it they are
  20 |q1| |q2| / d^2 and 0.02 m1 m2 / d^2.
\<close>

theorem force_calc_soft_core:
  assumes "0 < radius p1"
  shows "(hyp_calc (position p1) (position p2) < of_int (4 * radius p1) \<longrightarrow>
            electrostatic_force_calc p1 p2
              = Inr (of_int (20 * \<bar>charge p1\<bar> * \<bar>charge p2\<bar>) / (of_int (4 * radius p1))\<^sup>2)
            \<and> gravitational_force_calc p1 p2
              = Inr (2 / 100 * of_int (mass p1) * of_int (mass p2) / (of_int (4 * radius p1))\<^sup>2))
       \<and> (of_int (4 * radius p1) \<le> hyp_calc (position p1) (position p2) \<longrightarrow>
            electrostatic_force_calc p1 p2
              = Inr (of_int (20 * \<bar>charge p1\<bar> * \<bar>charge p2\<bar>)
                     / (hyp_calc (position p1) (position p2))\<^sup>2)
            \<and> gravitational_force_calc p1 p2
              = Inr (2 / 100 * of_int (mass p1) * of_int (mass p2)
                     / (hyp_calc (position p1) (position p2))\<^sup>2))"
proof -
  have r: "(4 * radius p1)\<^sup>2 \<noteq> 0" using assms by simp
  have far: "hyp_calc (position p1) (position p2) \<noteq> 0"
    if "of_int (4 * radius p1) \<le> hyp_calc (position p1) (position p2)"
  proof -
    have "(0::real) < of_int (4 * radius p1)" using assms by simp
    with that show ?thesis by linarith
  qed
  show ?thesis
    using r far
    by (auto simp: electrostatic_force_calc_def gravitational_force_calc_def Let_def)
qed

theorem force_calc_soft_core_witness:
  "0 < radius DynamicCharge_init
   \<and> hyp_calc (position DynamicCharge_init) (position (StationaryCharge_init (- 1) (53, 304))) = 5
   \<and> electrostatic_force_calc DynamicCharge_init (StationaryCharge_init (- 1) (53, 304))
       = Inr (20 / 1600)
   \<and> gravitational_force_calc DynamicCharge_init (StationaryCharge_init (- 1) (53, 304))
       = Inr (2 / 100 / 1600)
   \<and> hyp_calc (position DynamicCharge_init) (position (StationaryCharge_init (- 1) (350, 700)))
       = 500
   \<and> electrostatic_force_calc DynamicCharge_init (StationaryCharge_init (- 1) (350, 700))
       = Inr (20 / 250000)
   \<and> gravitational_force_calc DynamicCharge_init (StationaryCharge_init (- 1) (350, 700))
       = Inr (2 / 100 / 250000)"
proof -
  have r: "0 < radius DynamicCharge_init" by (simp add: DynamicCharge_init_def)
  have near: "hyp_calc (position DynamicCharge_init)
      (position (StationaryCharge_init (- 1) (53, 304))) = 5"
    by (simp add: hyp_calc_def DynamicCharge_init_def StationaryCharge_init_def
          launch_point_def SCREEN_SIZE_def sqrt_25)
  have far: "hyp_calc (position DynamicCharge_init)
      (position (StationaryCharge_init (- 1) (350, 700))) = 500"
    by (simp add: hyp_calc_def DynamicCharge_init_def StationaryCharge_init_def
          launch_point_def SCREEN_SIZE_def sqrt_250000)
  have vals: "radius DynamicCharge_init = 10" "charge DynamicCharge_init = 1"
    "mass DynamicCharge_init = 1" "charge (StationaryCharge_init (- 1) q) = - 1"
    "mass (StationaryCharge_init (- 1) q) = 1" for q
    by (simp_all add: DynamicCharge_init_def StationaryCharge_init_def)
  show ?thesis
    using force_calc_soft_core [OF r, of "StationaryCharge_init (- 1) (53, 304)"]
      force_calc_soft_core [OF r, of "StationaryCharge_init (- 1) (350, 700)"]
    by (simp add: near far vals)
qed

section \<open>Net force\<close>

text \<open>
  C6. With no stationary charge the loop body never runs and the result is the initial
  total (0, 0), for either force type.
\<close>

theorem net_force_calc_empty:
  "net_force_calc ''gravitational'' p [] = Inr (0, 0)
   \<and> net_force_calc ''electrostatic'' p [] = Inr (0, 0)"
  by (simp add: net_force_calc_def)

lemma accumulate_InrD:
  assumes "accumulate ft p c tot = Inr tot'"
  shows "\<exists>angle m a. magnitude_attraction ft p c = Inr (m, a)
      \<and> fst tot' = (if a = (fst (position p) > fst (position c))
                    then fst tot - \<bar>cos angle * m\<bar> else fst tot + \<bar>cos angle * m\<bar>)
      \<and> snd tot' = (if a = (snd (position p) > snd (position c))
                    then snd tot - \<bar>sin angle * m\<bar> else snd tot + \<bar>sin angle * m\<bar>)"
proof -
  obtain angle where ang: "angle_calc (position p) (position c) = Inr angle"
    using assms by (cases "angle_calc (position p) (position c)") (simp_all add: accumulate_def)
  obtain m a where ma: "magnitude_attraction ft p c = Inr (m, a)"
    using assms ang by (cases "magnitude_attraction ft p c") (auto simp: accumulate_def)
  have x: "fst tot' = (if a = (fst (position p) > fst (position c))
                    then fst tot - \<bar>cos angle * m\<bar> else fst tot + \<bar>cos angle * m\<bar>)"
    using assms by (cases a) (auto simp: accumulate_def ang ma)
  have y: "snd tot' = (if a = (snd (position p) > snd (position c))
                    then snd tot - \<bar>sin angle * m\<bar> else snd tot + \<bar>sin angle * m\<bar>)"
    using assms by (cases a) (auto simp: accumulate_def ang ma)
  from ma x y show ?thesis by blast
qed

lemma gravitational_flag:
  "magnitude_attraction ''gravitational'' p c = Inr (m, a) \<Longrightarrow> a"
  by (auto simp: magnitude_attraction_def split: sum.splits)

lemma electrostatic_flag:
  "magnitude_attraction ''electrostatic'' p c = Inr (m, a) \<Longrightarrow> charge c \<noteq> 0 \<Longrightarrow>
     a = (sgn (charge p) \<noteq> sgn (charge c))"
  by (auto simp: magnitude_attraction_def sgn_if split: sum.splits if_splits)

lemma pull_sign:
  fixes t v px cx :: real
  shows "0 \<le> ((if True = (px > cx) then t - \<bar>v\<bar> else t + \<bar>v\<bar>) - t) * (cx - px)"
  by (auto simp: mult_le_0_iff zero_le_mult_iff)

lemma push_sign:
  fixes t v px cx :: real
  shows "((if False = (px > cx) then t - \<bar>v\<bar> else t + \<bar>v\<bar>) - t) * (cx - px) \<le> 0"
  by (auto simp: mult_le_0_iff zero_le_mult_iff)

text \<open>
  C4. Whenever the loop body adds the contribution of a stationary charge of nonzero
  charge (the program creates them with charge 1 or -1): for the gravitational type the
  attraction flag is set and each component of the contribution points from the
  controlled particle to the charge or is zero; for the electrostatic type the flag is
  set exactly when the two charges have different signs, the contribution then points
  to the charge, and with equal signs it points away from it.
\<close>

theorem net_force_attraction:
  assumes "accumulate ft p c tot = Inr tot'" and "charge c \<noteq> 0"
  shows "(ft = ''gravitational'' \<longrightarrow>
            (\<exists>m. magnitude_attraction ft p c = Inr (m, True))
            \<and> 0 \<le> (fst tot' - fst tot) * (fst (position c) - fst (position p))
            \<and> 0 \<le> (snd tot' - snd tot) * (snd (position c) - snd (position p)))
       \<and> (ft = ''electrostatic'' \<longrightarrow>
            (\<exists>m. magnitude_attraction ft p c = Inr (m, sgn (charge p) \<noteq> sgn (charge c)))
            \<and> (sgn (charge p) \<noteq> sgn (charge c) \<longrightarrow>
                 0 \<le> (fst tot' - fst tot) * (fst (position c) - fst (position p))
                 \<and> 0 \<le> (snd tot' - snd tot) * (snd (position c) - snd (position p)))
            \<and> (sgn (charge p) = sgn (charge c) \<longrightarrow>
                 (fst tot' - fst tot) * (fst (position c) - fst (position p)) \<le> 0
                 \<and> (snd tot' - snd tot) * (snd (position c) - snd (position p)) \<le> 0))"
proof -
  from accumulate_InrD [OF assms(1)] obtain angle m a where
    ma: "magnitude_attraction ft p c = Inr (m, a)"
    and x: "fst tot' = (if a = (fst (position p) > fst (position c))
                    then fst tot - \<bar>cos angle * m\<bar> else fst tot + \<bar>cos angle * m\<bar>)"
    and y: "snd tot' = (if a = (snd (position p) > snd (position c))
                    then snd tot - \<bar>sin angle * m\<bar> else snd tot + \<bar>sin angle * m\<bar>)"
    by blast
  have pull: "0 \<le> (fst tot' - fst tot) * (fst (position c) - fst (position p))
      \<and> 0 \<le> (snd tot' - snd tot) * (snd (position c) - snd (position p))" if "a"
    using that pull_sign [of "fst (position c)" "fst (position p)" "fst tot" "cos angle * m"]
      pull_sign [of "snd (position c)" "snd (position p)" "snd tot" "sin angle * m"]
    by (simp only: x y simp_thms)
  have push: "(fst tot' - fst tot) * (fst (position c) - fst (position p)) \<le> 0
      \<and> (snd tot' - snd tot) * (snd (position c) - snd (position p)) \<le> 0" if "\<not> a"
    using that push_sign [of "fst (position c)" "fst (position p)" "fst tot" "cos angle * m"]
      push_sign [of "snd (position c)" "snd (position p)" "snd tot" "sin angle * m"]
    by (simp only: x y simp_thms)
  have g: "a" if "ft = ''gravitational''"
    using gravitational_flag ma that by blast
  have e: "a = (sgn (charge p) \<noteq> sgn (charge c))" if "ft = ''electrostatic''"
    using electrostatic_flag [of p c m a] ma that assms(2) by blast
  show ?thesis
    using ma pull push g e by auto
qed

theorem net_force_attraction_witness:
  "accumulate ''electrostatic'' DynamicCharge_init (StationaryCharge_init (- 1) (150, 300)) (0, 0)
     = Inr (1 / 500, 0)
   \<and> charge (StationaryCharge_init (- 1) (150, 300)) \<noteq> 0
   \<and> sgn (charge DynamicCharge_init) \<noteq> sgn (charge (StationaryCharge_init (- 1) (150, 300)))
   \<and> (\<exists>m. magnitude_attraction ''electrostatic'' DynamicCharge_init
              (StationaryCharge_init (- 1) (150, 300)) = Inr (m, True))"
proof -
  have mag: "magnitude_attraction ''electrostatic'' DynamicCharge_init
      (StationaryCharge_init (- 1) (150, 300)) = Inr (1 / 500, True)"
    by (simp add: magnitude_attraction_def electrostatic_force_calc_def hyp_calc_def
          DynamicCharge_init_def StationaryCharge_init_def launch_point_def SCREEN_SIZE_def
          sqrt_10000)
  have ang: "angle_calc (position DynamicCharge_init)
      (position (StationaryCharge_init (- 1) (150, 300))) = Inr 0"
    by (simp add: angle_calc_def hyp_calc_def DynamicCharge_init_def StationaryCharge_init_def
          launch_point_def SCREEN_SIZE_def sqrt_10000)
  have pos: "fst (position DynamicCharge_init) = 50" "snd (position DynamicCharge_init) = 300"
    "position (StationaryCharge_init (- 1) (150, 300)) = (150, 300)"
    by (simp_all add: DynamicCharge_init_def StationaryCharge_init_def launch_point_def
          SCREEN_SIZE_def)
  have acc: "accumulate ''electrostatic'' DynamicCharge_init
      (StationaryCharge_init (- 1) (150, 300)) (0, 0) = Inr (1 / 500, 0)"
    unfolding accumulate_def ang mag by (simp add: pos)
  have nz: "charge (StationaryCharge_init (- 1) (150, 300)) \<noteq> 0"
    by (simp add: StationaryCharge_init_def)
  have sg: "sgn (charge DynamicCharge_init)
      \<noteq> sgn (charge (StationaryCharge_init (- 1) (150, 300)))"
    by (simp add: DynamicCharge_init_def StationaryCharge_init_def)
  show ?thesis
    using net_force_attraction [OF acc nz] acc nz sg by simp
qed

section \<open>The slider value and the level index\<close>

lemma py_round_bounds:
  assumes "of_int a \<le> x" "x \<le> of_int b"
  shows "a \<le> py_round x \<and> py_round x \<le> b"
proof -
  have lo: "a \<le> \<lfloor>x\<rfloor>" using assms(1) by (simp add: le_floor_iff)
  show ?thesis
  proof (cases "x = of_int b")
    case True
    then show ?thesis using lo by (simp add: py_round_def Let_def)
  next
    case False
    then have "x < of_int b" using assms(2) by simp
    then have "\<lfloor>x\<rfloor> < b" by (simp add: floor_less_iff)
    then show ?thesis using lo by (auto simp: py_round_def Let_def)
  qed
qed

lemma get_val_in_domain:
  assumes "0 < width s" "start (domain s) \<le> stop (domain s)"
    "fst (Slider.position s) \<le> current_position s"
    "current_position s \<le> fst (Slider.position s) + width s"
  shows "\<exists>v. get_val s = Inr v \<and> start (domain s) \<le> v \<and> v \<le> stop (domain s)"
proof -
  define n where "n = stop (domain s) - start (domain s)"
  define k where "k = current_position s - fst (Slider.position s)"
  define w where "w = width s"
  have n: "0 \<le> n" and k: "0 \<le> k" "k \<le> w" and w: "0 < w"
    using assms by (simp_all add: n_def k_def w_def)
  have "n * k \<le> n * w" using n k by (simp add: mult_left_mono)
  then have "(of_int (n * k) :: real) \<le> of_int (n * w)" by (simp only: of_int_le_iff)
  then have up: "(of_int (n * k) :: real) / of_int w \<le> of_int n"
    using w by (simp add: divide_le_eq)
  have "0 \<le> n * k" using n k by simp
  then have "(0::real) \<le> of_int (n * k)" by (simp only: of_int_0_le_iff)
  moreover have "(0::real) < of_int w" using w by simp
  ultimately have "(0::real) \<le> of_int (n * k) / of_int w" by (rule divide_nonneg_pos)
  then have lo: "(of_int 0 :: real) \<le> of_int (n * k) / of_int w" by simp
  have b: "0 \<le> py_round (of_int (n * k) / of_int w) \<and> py_round (of_int (n * k) / of_int w) \<le> n"
    using py_round_bounds [OF lo up] .
  have "get_val s = Inr (py_round (of_int (n * k) / of_int w) + start (domain s))"
    using w by (simp add: get_val_def n_def k_def w_def)
  with b show ?thesis by (simp add: n_def)
qed

lemma level_inv_initial: "level_inv initial_game"
  by (simp add: level_inv_def initial_game_def level_slider_init_def Slider_init_def
        SCREEN_SIZE_def)

lemma level_inv_get_val:
  assumes "level_inv g"
  shows "\<exists>v. get_val (level_slider g) = Inr v \<and> 0 \<le> v \<and> v \<le> 3"
  using get_val_in_domain [of "level_slider g"] assms by (simp add: level_inv_def)

lemma level_inv_cong:
  "level_inv g \<Longrightarrow> level_slider g' = level_slider g \<Longrightarrow> active_level g' = active_level g
     \<Longrightarrow> level_inv g'"
  by (simp add: level_inv_def)

lemma home_event_inv:
  assumes "level_inv g" "home_event g ev = Inr g'"
  shows "level_inv g'"
proof (cases ev)
  case QUIT
  then show ?thesis using assms by (simp add: home_event_def)
next
  case (MOUSEBUTTONDOWN button pos)
  from level_inv_get_val [OF assms(1)] obtain v where
    v: "get_val (level_slider g) = Inr v" "0 \<le> v" "v \<le> 3" by blast
  show ?thesis
    using assms MOUSEBUTTONDOWN v
    by (auto simp: home_event_def level_inv_def split: if_splits)
next
  case MOUSEBUTTONUP
  then show ?thesis using assms by (auto simp: home_event_def level_inv_def)
next
  case (MOUSEMOTION pos)
  then show ?thesis using assms by (auto simp: home_event_def level_inv_def drag_def)
next
  case OTHER
  then show ?thesis using assms by (auto simp: home_event_def)
qed

lemma click_steps_level:
  "level_slider (click_charges pos g) = level_slider g"
  "active_level (click_charges pos g) = active_level g"
  "level_slider (click_add_positive_charges pos g) = level_slider g"
  "active_level (click_add_positive_charges pos g) = active_level g"
  "level_slider (click_add_negative_charge pos g) = level_slider g"
  "active_level (click_add_negative_charge pos g) = active_level g"
  "level_slider (click_run_button pos g) = level_slider g"
  "active_level (click_run_button pos g) = active_level g"
  "level_slider (click_mass_slider pos g) = level_slider g"
  "active_level (click_mass_slider pos g) = active_level g"
  "level_slider (click_charge_slider pos g) = level_slider g"
  "active_level (click_charge_slider pos g) = active_level g"
  "level_slider (click_home_button pos g) = level_slider g"
  "active_level (click_home_button pos g) = active_level g"
  "level_slider (click_reset_button pos g) = level_slider g"
  "active_level (click_reset_button pos g) = active_level g"
  "level_slider (click_clear_button pos g) = level_slider g"
  "active_level (click_clear_button pos g) = active_level g"
  by (simp_all add: click_charges_def click_add_positive_charges_def
        click_add_negative_charge_def click_run_button_def click_mass_slider_def
        click_charge_slider_def click_home_button_def click_reset_button_def
        click_clear_button_def)

lemma click_steps_run:
  "run (click_charges pos g) = run g"
  "run (click_add_positive_charges pos g) = run g"
  "run (click_add_negative_charge pos g) = run g"
  "run (click_run_button pos g) = (Button_detect_click run_button pos \<or> run g)"
  "run (click_mass_slider pos g) = run g"
  "run (click_charge_slider pos g) = run g"
  "run (click_home_button pos g) = (\<not> Button_detect_click home_button pos \<and> run g)"
  "run (click_reset_button pos g) = (\<not> Button_detect_click reset_button pos \<and> run g)"
  "run (click_clear_button pos g) = run g"
  by (simp_all add: click_charges_def click_add_positive_charges_def
        click_add_negative_charge_def click_run_button_def click_mass_slider_def
        click_charge_slider_def click_home_button_def click_reset_button_def
        click_clear_button_def)

lemma left_click_level:
  "level_slider (left_click pos g) = level_slider g"
  "active_level (left_click pos g) = active_level g"
  by (simp_all add: left_click_def click_steps_level)

lemma left_click_run:
  "run (left_click pos g) \<Longrightarrow> Button_detect_click run_button pos \<or> run g"
  by (simp add: left_click_def click_steps_run)

lemma play_event_level:
  assumes "play_event g ev = Inr g'"
  shows "level_slider g' = level_slider g \<and> active_level g' = active_level g"
  using assms
  by (cases ev) (auto simp: play_event_def left_click_level split: if_splits)

lemma play_event_run:
  assumes "play_event g ev = Inr g'" "\<not> run g" "\<not> run_click ev"
  shows "\<not> run g'"
  using assms
  by (cases ev) (auto simp: play_event_def dest: left_click_run split: if_splits)

lemma run_events_no_run_click:
  "run_events play_event g evs = Inr g' \<Longrightarrow> \<not> run g \<Longrightarrow> \<forall>ev \<in> set evs. \<not> run_click ev
     \<Longrightarrow> \<not> run g'"
proof (induction evs arbitrary: g)
  case Nil
  then show ?case by simp
next
  case (Cons ev evs)
  from Cons.prems(1) obtain g1 where
    st: "play_event g ev = Inr g1" and rest: "run_events play_event g1 evs = Inr g'"
    by (auto split: sum.splits)
  have "\<not> run g1" using play_event_run [OF st Cons.prems(2)] Cons.prems(3) by simp
  then show ?case using Cons.IH [OF rest] Cons.prems(3) by simp
qed

lemma integrate_level:
  assumes "integrate g = Inr g'"
  shows "level_slider g' = level_slider g \<and> active_level g' = active_level g"
  using assms
  by (auto simp: integrate_def split: if_splits sum.splits prod.splits option.splits)

lemma read_sliders_level:
  assumes "read_sliders g = Inr g'"
  shows "level_slider g' = level_slider g \<and> active_level g' = active_level g"
  using assms by (auto simp: read_sliders_def split: sum.splits)

lemma goal_check_fields:
  "level_slider (goal_check g) = level_slider g"
  "active_level (goal_check g) = active_level g"
  "primary_charge (goal_check g) = primary_charge g"
  by (simp_all add: goal_check_def)

lemma game_update_goal_check:
  assumes "game_update g = Inr g1"
  shows "\<exists>g2. g1 = goal_check g2"
  using assms by (auto simp: game_update_def split: sum.splits)

lemma game_update_level:
  assumes "game_update g = Inr g'"
  shows "level_slider g' = level_slider g \<and> active_level g' = active_level g"
proof -
  from assms obtain obstacles ga gb where
    i: "integrate (g\<lparr>run := obstacle_check (primary_charge g) obstacles (run g),
                      charges := remove_offscreen 0 (charges g)\<rparr>) = Inr ga"
    and r: "read_sliders ga = Inr gb" and e: "g' = goal_check gb"
    by (auto simp: game_update_def split: sum.splits)
  show ?thesis
    using integrate_level [OF i] read_sliders_level [OF r] e by (simp add: goal_check_fields)
qed

lemma run_events_inv:
  assumes step: "\<And>g ev g'. P g \<Longrightarrow> handler g ev = Inr g' \<Longrightarrow> P g'"
  shows "P g \<Longrightarrow> run_events handler g evs = Inr g' \<Longrightarrow> P g'"
proof (induction evs arbitrary: g)
  case Nil
  then show ?case by simp
next
  case (Cons ev evs)
  from Cons.prems(2) obtain g1 where
    st: "handler g ev = Inr g1" and rest: "run_events handler g1 evs = Inr g'"
    by (auto split: sum.splits)
  show ?case using Cons.IH [OF step [OF Cons.prems(1) st] rest] .
qed

lemma play_event_inv: "level_inv g \<Longrightarrow> play_event g ev = Inr g' \<Longrightarrow> level_inv g'"
  using play_event_level level_inv_cong by blast

lemma frame_inv:
  assumes "level_inv g" "frame g evs = Inr g'"
  shows "level_inv g'"
proof (cases "play g")
  case False
  then have "run_events home_event g evs = Inr g'" using assms(2) by (simp add: frame_def)
  then show ?thesis using run_events_inv [of level_inv home_event g evs g'] home_event_inv assms(1)
    by blast
next
  case True
  then obtain g1 where u: "game_update g = Inr g1" and e: "run_events play_event g1 evs = Inr g'"
    using assms(2) by (auto simp: frame_def split: sum.splits)
  have "level_inv g1" using game_update_level [OF u] level_inv_cong [OF assms(1)] by blast
  then show ?thesis using run_events_inv [of level_inv play_event g1 evs g'] play_event_inv e
    by blast
qed

lemma frames_inv: "level_inv g \<Longrightarrow> frames g evss = Inr g' \<Longrightarrow> level_inv g'"
proof (induction evss arbitrary: g)
  case Nil
  then show ?case by simp
next
  case (Cons evs evss)
  from Cons.prems(2) obtain g1 where
    f: "frame g evs = Inr g1" and rest: "frames g1 evss = Inr g'"
    by (auto split: sum.splits)
  show ?case using Cons.IH [OF frame_inv [OF Cons.prems(1) f] rest] .
qed

lemma levels_getitem:
  assumes "0 \<le> i" "i \<le> 3"
  shows "\<exists>obstacles. list_getitem levels i = Inr obstacles"
  using assms by (simp add: list_getitem_def levels_def)

text \<open>
  C9. For a slider of positive width whose domain has start at most stop (the three
  sliders of the program have width 100 and the domains 0 to 3, 1 to 100, -25 to 25),
  a knob on the track gives a \<open>get_val\<close> that returns an integer from start to stop.
  In every state the loop reaches from the initial one, through any events, the level
  slider yields a value from 0 to 3 and the active level is an index of the 4-entry
  table \<open>levels\<close>.
\<close>

theorem get_val_within_domain:
  "(0 < width s \<and> start (domain s) \<le> stop (domain s)
      \<and> fst (Slider.position s) \<le> current_position s
      \<and> current_position s \<le> fst (Slider.position s) + width s
      \<longrightarrow> (\<exists>v. get_val s = Inr v \<and> start (domain s) \<le> v \<and> v \<le> stop (domain s)))
   \<and> (frames initial_game evss = Inr g \<longrightarrow>
        (\<exists>v. get_val (level_slider g) = Inr v \<and> 0 \<le> v \<and> v \<le> 3)
        \<and> 0 \<le> active_level g \<and> active_level g < int (length levels)
        \<and> (\<exists>obstacles. list_getitem levels (active_level g) = Inr obstacles))"
proof -
  have "\<exists>v. get_val (level_slider g) = Inr v \<and> 0 \<le> v \<and> v \<le> 3"
    and "0 \<le> active_level g \<and> active_level g < int (length levels)"
    and "\<exists>obstacles. list_getitem levels (active_level g) = Inr obstacles"
    if "frames initial_game evss = Inr g"
  proof -
    have inv: "level_inv g" using frames_inv [OF level_inv_initial that] .
    show "\<exists>v. get_val (level_slider g) = Inr v \<and> 0 \<le> v \<and> v \<le> 3"
      using level_inv_get_val [OF inv] .
    have al: "0 \<le> active_level g" "active_level g \<le> 3" using inv by (simp_all add: level_inv_def)
    then show "0 \<le> active_level g \<and> active_level g < int (length levels)"
      by (simp add: levels_def)
    show "\<exists>obstacles. list_getitem levels (active_level g) = Inr obstacles"
      using levels_getitem [OF al] .
  qed
  then show ?thesis using get_val_in_domain [of s] by blast
qed

theorem get_val_within_domain_witness:
  "0 < width (level_slider_init\<lparr>current_position := 575\<rparr>)
   \<and> get_val (level_slider_init\<lparr>current_position := 575\<rparr>) = Inr 2
   \<and> frames initial_game
       [[MOUSEBUTTONDOWN 1 (530, 200), MOUSEMOTION (575, 200), MOUSEBUTTONUP],
        [MOUSEBUTTONDOWN 1 (540, 310)]]
     = Inr (initial_game\<lparr>play := True, active_level := 2,
                         level_slider := level_slider_init\<lparr>current_position := 575\<rparr>\<rparr>)
   \<and> list_getitem levels 2
     = Inr [Obstacle_init 400 75 20 150 (0, 0, 0), Obstacle_init 800 225 20 150 (0, 0, 0)]"
proof -
  have gv: "get_val (level_slider_init\<lparr>current_position := 575\<rparr>) = Inr 2"
    by (simp add: get_val_def level_slider_init_def Slider_init_def SCREEN_SIZE_def
          py_round_def)
  have f1: "frame initial_game
      [MOUSEBUTTONDOWN 1 (530, 200), MOUSEMOTION (575, 200), MOUSEBUTTONUP]
      = Inr (initial_game\<lparr>level_slider := level_slider_init\<lparr>current_position := 575\<rparr>\<rparr>)"
    by (simp add: frame_def initial_game_def home_event_def Button_detect_click_def
          play_button_def quit_button_def Button_init_def Slider_detect_click_def drag_def
          level_slider_init_def Slider_init_def SCREEN_SIZE_def)
  have f2: "frame (initial_game\<lparr>level_slider := level_slider_init\<lparr>current_position := 575\<rparr>\<rparr>)
      [MOUSEBUTTONDOWN 1 (540, 310)]
      = Inr (initial_game\<lparr>play := True, active_level := 2,
                          level_slider := level_slider_init\<lparr>current_position := 575\<rparr>\<rparr>)"
    by (simp add: frame_def initial_game_def home_event_def Button_detect_click_def
          play_button_def Button_init_def SCREEN_SIZE_def gv)
  have fs: "frames initial_game
       [[MOUSEBUTTONDOWN 1 (530, 200), MOUSEMOTION (575, 200), MOUSEBUTTONUP],
        [MOUSEBUTTONDOWN 1 (540, 310)]]
     = Inr (initial_game\<lparr>play := True, active_level := 2,
                         level_slider := level_slider_init\<lparr>current_position := 575\<rparr>\<rparr>)"
    by (simp add: f1 f2)
  have lv: "list_getitem levels 2
     = Inr [Obstacle_init 400 75 20 150 (0, 0, 0), Obstacle_init 800 225 20 150 (0, 0, 0)]"
    by (simp add: list_getitem_def levels_def SCREEN_SIZE_def)
  have w: "0 < width (level_slider_init\<lparr>current_position := 575\<rparr>)"
    by (simp add: level_slider_init_def Slider_init_def)
  show ?thesis
    using get_val_within_domain [of "level_slider_init\<lparr>current_position := 575\<rparr>"
        "[[MOUSEBUTTONDOWN 1 (530, 200), MOUSEMOTION (575, 200), MOUSEBUTTONUP],
          [MOUSEBUTTONDOWN 1 (540, 310)]]"
        "initial_game\<lparr>play := True, active_level := 2,
                         level_slider := level_slider_init\<lparr>current_position := 575\<rparr>\<rparr>"]
      gv fs lv w
    by simp
qed

section \<open>The goal check\<close>

text \<open>
  C2. When the game screen's update of one iteration (lines 410-437) completes and the
  controlled particle collides with the goal at the goal check, the run flag is false
  after the update, whatever the obstacle check found and whatever the flag was before.
  It is still false after the events polled in that iteration, unless one of them is a
  left click on the run button.
\<close>

theorem goal_collision_stops_run:
  assumes "game_update g = Inr g1" and "detect_collision (primary_charge g1) goal"
  shows "\<not> run g1
       \<and> (run_events play_event g1 evs = Inr g' \<and> (\<forall>ev \<in> set evs. \<not> run_click ev)
            \<longrightarrow> \<not> run g')"
proof -
  from game_update_goal_check [OF assms(1)] obtain g2 where g2: "g1 = goal_check g2"
    by blast
  have "detect_collision (primary_charge g2) goal"
    using assms(2) g2 by (simp add: goal_check_fields)
  then have stopped: "\<not> run g1" using g2 by (simp add: goal_check_def)
  then show ?thesis using run_events_no_run_click [of g1 evs g'] by blast
qed

theorem goal_collision_stops_run_witness:
  "run (initial_game\<lparr>play := True, run := True,
          primary_charge := DynamicCharge_init\<lparr>position := (1150, 300)\<rparr>\<rparr>)
   \<and> game_update (initial_game\<lparr>play := True, run := True,
          primary_charge := DynamicCharge_init\<lparr>position := (1150, 300)\<rparr>\<rparr>)
     = Inr (initial_game\<lparr>play := True, run := False, g_force := [0, 0], e_force := [0, 0],
          primary_charge := DynamicCharge_init\<lparr>position := (1150, 300), charge := - 25\<rparr>\<rparr>)
   \<and> detect_collision (DynamicCharge_init\<lparr>position := (1150, 300), charge := - 25\<rparr>) goal
   \<and> \<not> run (initial_game\<lparr>play := True, run := False, g_force := [0, 0], e_force := [0, 0],
          primary_charge := DynamicCharge_init\<lparr>position := (1150, 300), charge := - 25\<rparr>\<rparr>)"
proof -
  have ms: "get_val mass_slider_init = Inr 1"
    by (simp add: get_val_def mass_slider_init_def Slider_init_def py_round_def)
  have cs: "get_val charge_slider_init = Inr (- 25)"
    by (simp add: get_val_def charge_slider_init_def Slider_init_def py_round_def)
  have lv: "list_getitem levels 0 = Inr []"
    by (simp add: list_getitem_def levels_def)
  have ro: "remove_offscreen 0 [] = []"
    by (simp add: remove_offscreen.simps [of 0 "[]"])
  have col: "detect_collision (DynamicCharge_init\<lparr>position := (1150, 300), charge := - 25\<rparr>) goal"
    by (simp add: detect_collision_def DynamicCharge_init_def goal_def Obstacle_init_def
          SCREEN_SIZE_def)
  have up: "game_update (initial_game\<lparr>play := True, run := True,
          primary_charge := DynamicCharge_init\<lparr>position := (1150, 300)\<rparr>\<rparr>)
     = Inr (initial_game\<lparr>play := True, run := False, g_force := [0, 0], e_force := [0, 0],
          primary_charge := DynamicCharge_init\<lparr>position := (1150, 300), charge := - 25\<rparr>\<rparr>)"
    by (simp add: game_update_def initial_game_def lv ro integrate_def net_force_calc_def
          move_def read_sliders_def ms cs goal_check_def detect_collision_def goal_def
          Obstacle_init_def SCREEN_SIZE_def DynamicCharge_init_def launch_point_def)
  show ?thesis
    using goal_collision_stops_run [OF up, of "[]"] col up
    by (simp add: initial_game_def)
qed

end
